theory Spec2Isabelle
  imports Main "HOL-Library.Sublist"
begin

section \<open>lirc-indicator: the observable world\<close>

text \<open>
  The program \<^verbatim>\<open>lirc-indicator.c\<close> talks to the GPIO control files under
  \<^verbatim>\<open>/sys/class/gpio\<close>, to the LIRC socket, to its standard streams and to the
  process machinery (fork, sigaction, exit). A run is modelled by the list of the
  library and system calls it makes, in order, each with its outcome.
\<close>

datatype gpio_file =
    ExportFile          \<comment> \<open>\<^verbatim>\<open>/sys/class/gpio/export\<close>\<close>
  | UnexportFile        \<comment> \<open>\<^verbatim>\<open>/sys/class/gpio/unexport\<close>\<close>
  | DirectionFile int   \<comment> \<open>\<^verbatim>\<open>/sys/class/gpio/gpio%d/direction\<close>\<close>
  | ValueFile int       \<comment> \<open>\<^verbatim>\<open>/sys/class/gpio/gpio%d/value\<close>\<close>

datatype payload =
    Num int             \<comment> \<open>the text printed by the format \<^verbatim>\<open>"%d\n"\<close>\<close>
  | Out                 \<comment> \<open>the text \<^verbatim>\<open>"out\n"\<close>\<close>

datatype read_result =
    ReadErr int         \<comment> \<open>\<^verbatim>\<open>read\<close> returns -1 and sets errno\<close>
  | ReadData string     \<comment> \<open>the bytes delivered by one \<^verbatim>\<open>read\<close>; no bytes: end of stream\<close>

datatype event =
    Stdout string
  | Stderr string
  | Perror string
  | Fopen gpio_file bool            \<comment> \<open>the file and whether a stream was returned\<close>
  | Fprintf gpio_file payload int   \<comment> \<open>the file, the text, and the value fprintf returned\<close>
  | Fclose gpio_file
  | Usleep nat
  | Fork int
  | Sigaction
  | Socket bool
  | Connect string bool
  | Read read_result
  | Lseek

text \<open>
  The operating system is a parameter. Outcomes that may differ from call to call are
  functions of the calls made so far.
\<close>

record os =
  fopen_res :: "event list \<Rightarrow> gpio_file \<Rightarrow> int option"
    \<comment> \<open>\<open>None\<close>: a stream is returned; \<open>Some e\<close>: NULL is returned and errno is \<open>e\<close>\<close>
  fprintf_res :: "event list \<Rightarrow> gpio_file \<Rightarrow> payload \<Rightarrow> int"
    \<comment> \<open>the value returned by fprintf on a GPIO file: negative on failure\<close>
  fork_res :: int
  socket_res :: "int option"
  connect_res :: "string \<Rightarrow> int option"
  reads :: "read_result list"
    \<comment> \<open>what the successive calls of \<^verbatim>\<open>read\<close> deliver; after the last one \<^verbatim>\<open>read\<close> blocks\<close>
  stack_buf :: string
    \<comment> \<open>the bytes that happen to be in \<^verbatim>\<open>buf\<close> when \<^verbatim>\<open>main\<close> starts\<close>
  strtold_fp :: "string \<Rightarrow> int option"
    \<comment> \<open>\<^verbatim>\<open>(int) strtold(s, NULL)\<close> for hexadecimal, fractional and exponent forms\<close>
  report_errno :: "event list \<Rightarrow> int \<Rightarrow> int"
    \<comment> \<open>errno after a printf, fprintf(stderr, ...) or perror, given the calls made so far
        and errno before: such a call may overwrite errno\<close>

text \<open>
  The process state: the two globals \<^verbatim>\<open>gpio_pin\<close> and \<^verbatim>\<open>isExported\<close>, errno, the
  locals of \<^verbatim>\<open>main\<close> that outlive a statement (\<^verbatim>\<open>isDaemon\<close>, \<^verbatim>\<open>addr.sun_path\<close>,
  \<^verbatim>\<open>buf\<close>), the disposition of SIGINT, the calls made so far, and \<open>sigint_in\<close>: the
  number of steps the main flow still takes before SIGINT is delivered (\<open>None\<close>: no
  SIGINT in this run).
\<close>

record st =
  gpio_pin :: int
  isExported :: int
  errno :: int
  isDaemon :: int
  sun_path :: string
  buf :: string
  handler :: bool
  sigint_in :: "nat option"
  trace :: "event list"

datatype status =
    Exit int              \<comment> \<open>\<^verbatim>\<open>exit(n)\<close>, or \<^verbatim>\<open>return n\<close> from \<^verbatim>\<open>main\<close>\<close>
  | KilledBySigint        \<comment> \<open>SIGINT arrived under the default disposition\<close>
  | SigintPending         \<comment> \<open>the main flow stops here: SIGINT is delivered at this point\<close>
  | BlockedInRead         \<comment> \<open>\<^verbatim>\<open>read\<close> waits for data that never comes\<close>
  | UndefinedBehaviour    \<comment> \<open>the C standard gives the step no meaning\<close>

datatype 'a res = Running 'a st | Halted status st

fun andThen :: "'a res \<Rightarrow> ('a \<Rightarrow> st \<Rightarrow> 'b res) \<Rightarrow> 'b res" where
  "andThen (Running a s) f = f a s"
| "andThen (Halted c s) f = Halted c s"

fun final :: "'a res \<Rightarrow> st" where
  "final (Running a s) = s"
| "final (Halted c s) = s"

text \<open>Every call and every store to a global is a point where SIGINT may arrive.\<close>

definition point :: "st \<Rightarrow> unit res" where
  "point s =
     (case sigint_in s of
        None \<Rightarrow> Running () s
      | Some 0 \<Rightarrow> Halted SigintPending s
      | Some (Suc n) \<Rightarrow> Running () (s\<lparr>sigint_in := Some n\<rparr>))"

definition emit :: "event \<Rightarrow> st \<Rightarrow> unit res" where
  "emit e s = andThen (point s) (\<lambda>_ s. Running () (s\<lparr>trace := trace s @ [e]\<rparr>))"

text \<open>
  A message on standard output or standard error (\<^verbatim>\<open>printf\<close>,
  \<^verbatim>\<open>fprintf(stderr, ...)\<close>, \<^verbatim>\<open>perror\<close>). The program reads errno after such a
  message (\<^verbatim>\<open>exit(errno)\<close>, \<^verbatim>\<open>cleanup(errno)\<close>), and the message may have changed it.
\<close>

definition c_report :: "os \<Rightarrow> event \<Rightarrow> st \<Rightarrow> unit res" where
  "c_report os e s0 =
     andThen (point s0) (\<lambda>_ s.
       Running () (s\<lparr>errno := report_errno os (trace s) (errno s), trace := trace s @ [e]\<rparr>))"

definition c_exit :: "int \<Rightarrow> st \<Rightarrow> 'a res" where
  "c_exit n s = andThen (point s) (\<lambda>_ s. Halted (Exit n) s)"

definition c_fopen :: "os \<Rightarrow> gpio_file \<Rightarrow> st \<Rightarrow> bool res" where
  "c_fopen os f s =
     andThen (point s) (\<lambda>_ s.
       case fopen_res os (trace s) f of
         None \<Rightarrow> Running True (s\<lparr>trace := trace s @ [Fopen f True]\<rparr>)
       | Some e \<Rightarrow> Running False (s\<lparr>errno := e, trace := trace s @ [Fopen f False]\<rparr>))"

definition c_fprintf :: "os \<Rightarrow> gpio_file \<Rightarrow> payload \<Rightarrow> st \<Rightarrow> int res" where
  "c_fprintf os f p s =
     andThen (point s) (\<lambda>_ s.
       let r = fprintf_res os (trace s) f p
       in Running r (s\<lparr>trace := trace s @ [Fprintf f p r]\<rparr>))"

section \<open>The GPIO functions\<close>

text \<open>
  \<^verbatim>\<open>unexportGPIO\<close> (lines 80-95). Both failure branches call \<^verbatim>\<open>exit(errno)\<close>
  directly. The test \<^verbatim>\<open>(errno = fprintf(...)) < 0\<close> stores the value fprintf returned
  in errno.
\<close>

definition unexportGPIO :: "os \<Rightarrow> int \<Rightarrow> st \<Rightarrow> unit res" where
  "unexportGPIO os pin s0 =
     andThen (c_fopen os UnexportFile s0) (\<lambda>fd s.
       if \<not> fd then
         andThen (c_report os (Stderr ''Unable to open GPIO unexport interface'') s) (\<lambda>_ s.
           c_exit (errno s) s)
       else
         andThen (c_fprintf os UnexportFile (Num pin) s) (\<lambda>r s.
           let s = s\<lparr>errno := r\<rparr> in
           if r < 0 then
             andThen (c_report os (Stderr ''Unable to write to GPIO unexport interface'') s) (\<lambda>_ s.
               c_exit (errno s) s)
           else emit (Fclose UnexportFile) s))"

text \<open>
  \<^verbatim>\<open>cleanup\<close> (lines 43-50) is the guarded call of \<^verbatim>\<open>unexportGPIO\<close> followed by
  \<^verbatim>\<open>exit(retval)\<close>. The guarded call (lines 45-47) is named \<open>release\<close> here so that
  it can be spoken about on its own. Nothing in the program ever stores 0 in
  \<^verbatim>\<open>isExported\<close>.
\<close>

definition release :: "os \<Rightarrow> st \<Rightarrow> unit res" where
  "release os s =
     (if isExported s \<noteq> 0 \<and> gpio_pin s \<ge> 0 then unexportGPIO os (gpio_pin s) s
      else Running () s)"

definition cleanup :: "os \<Rightarrow> int \<Rightarrow> st \<Rightarrow> 'a res" where
  "cleanup os retval s = andThen (release os s) (\<lambda>_ s. c_exit retval s)"

text \<open>\<^verbatim>\<open>onExit\<close> (lines 53-55), the SIGINT handler.\<close>

definition onExit :: "os \<Rightarrow> int \<Rightarrow> st \<Rightarrow> 'a res" where
  "onExit os sig s = cleanup os 1 s"

text \<open>\<^verbatim>\<open>exportGPIO\<close> (lines 60-75).\<close>

definition exportGPIO :: "os \<Rightarrow> int \<Rightarrow> st \<Rightarrow> unit res" where
  "exportGPIO os pin s0 =
     andThen (c_fopen os ExportFile s0) (\<lambda>fd s.
       if \<not> fd then
         andThen (c_report os (Stderr ''Unable to open GPIO export interface'') s) (\<lambda>_ s.
           cleanup os (errno s) s)
       else
         andThen (c_fprintf os ExportFile (Num pin) s) (\<lambda>r s.
           let s = s\<lparr>errno := r\<rparr> in
           if r < 0 then
             andThen (c_report os (Stderr ''Unable to write to GPIO export interface'') s) (\<lambda>_ s.
               cleanup os (errno s) s)
           else emit (Fclose ExportFile) s))"

text \<open>\<^verbatim>\<open>setAsOutput\<close> (lines 98-115).\<close>

definition setAsOutput :: "os \<Rightarrow> int \<Rightarrow> st \<Rightarrow> unit res" where
  "setAsOutput os pin s0 =
     andThen (c_fopen os (DirectionFile pin) s0) (\<lambda>fd s.
       if \<not> fd then
         andThen (c_report os (Stderr ''Unable to open GPIO direction interface for pin'') s) (\<lambda>_ s.
           cleanup os (errno s) s)
       else
         andThen (c_fprintf os (DirectionFile pin) Out s) (\<lambda>r s.
           let s = s\<lparr>errno := r\<rparr> in
           if r < 0 then
             andThen (c_report os (Stderr ''Unable to write to GPIO direction interface for pin'') s) (\<lambda>_ s.
               cleanup os (errno s) s)
           else emit (Fclose (DirectionFile pin)) s))"

text \<open>
  \<^verbatim>\<open>setValue\<close> (lines 118-140). The range check comes first and ends in
  \<^verbatim>\<open>cleanup(0)\<close>, which does not return.
\<close>

definition setValue :: "os \<Rightarrow> int \<Rightarrow> int \<Rightarrow> st \<Rightarrow> unit res" where
  "setValue os pin v s0 =
     (if v \<noteq> 0 \<and> v \<noteq> 1 then
        andThen (c_report os (Stderr ''Value can only be 0 or 1'') s0) (\<lambda>_ s. cleanup os 0 s)
      else
        andThen (c_fopen os (ValueFile pin) s0) (\<lambda>fd s.
          if \<not> fd then
            andThen (c_report os (Stderr ''Unable to open GPIO value interface for pin'') s) (\<lambda>_ s.
              cleanup os (errno s) s)
          else
            andThen (c_fprintf os (ValueFile pin) (Num v) s) (\<lambda>r s.
              let s = s\<lparr>errno := r\<rparr> in
              if r < 0 then
                andThen (c_report os (Stderr ''Unable to write to GPIO value interface for pin'') s) (\<lambda>_ s.
                  cleanup os (errno s) s)
              else emit (Fclose (ValueFile pin)) s)))"

text \<open>\<^verbatim>\<open>flash\<close> (lines 143-148).\<close>

definition flash :: "os \<Rightarrow> int \<Rightarrow> st \<Rightarrow> unit res" where
  "flash os pin s0 =
     andThen (setValue os pin 1 s0) (\<lambda>_ s.
       andThen (emit (Usleep 100000) s) (\<lambda>_ s.
         setValue os pin 0 s))"

section \<open>Argument parsing\<close>

text \<open>
  \<^verbatim>\<open>strtold\<close> belongs to the C library. Its result, converted to \<^verbatim>\<open>int\<close> by the
  assignment to \<^verbatim>\<open>gpio_pin\<close>, is modelled after the C standard (7.22.1.4): white
  space is skipped, an optional sign is read, and the longest initial part of the rest
  that has the form of a floating constant, of INF or of NAN is converted. When there
  is no such part, no conversion is performed and the result is 0. A plain run of
  decimal digits is converted exactly; the conversion of a value outside the range of
  \<^verbatim>\<open>int\<close>, of an infinity or of a NaN is undefined (\<open>None\<close>). The forms whose value
  depends on floating-point rounding are left to the parameter \<open>strtold_fp\<close>.
\<close>

definition c_isspace :: "char \<Rightarrow> bool" where
  "c_isspace c = (c \<in> set [CHR '' '', CHR 0x09, CHR 0x0A, CHR 0x0B, CHR 0x0C, CHR 0x0D])"

definition c_isdigit :: "char \<Rightarrow> bool" where
  "c_isdigit c = (c \<in> set ''0123456789'')"

definition c_isxdigit :: "char \<Rightarrow> bool" where
  "c_isxdigit c = (c \<in> set ''0123456789abcdefABCDEF'')"

definition skip_sign :: "string \<Rightarrow> bool \<times> string" where
  "skip_sign t =
     (case t of
        [] \<Rightarrow> (False, [])
      | c # u \<Rightarrow> if c = CHR ''-'' then (True, u) else if c = CHR ''+'' then (False, u)
                 else (False, t))"

definition starts_digit :: "string \<Rightarrow> bool" where
  "starts_digit u = (case u of [] \<Rightarrow> False | c # _ \<Rightarrow> c_isdigit c)"

definition starts_xdigit :: "string \<Rightarrow> bool" where
  "starts_xdigit u = (case u of [] \<Rightarrow> False | c # _ \<Rightarrow> c_isxdigit c)"

definition inf_or_nan :: "string \<Rightarrow> bool" where
  "inf_or_nan u =
     (case u of
        a # b # c # _ \<Rightarrow>
          (a \<in> set ''iI'' \<and> b \<in> set ''nN'' \<and> c \<in> set ''fF'') \<or>
          (a \<in> set ''nN'' \<and> b \<in> set ''aA'' \<and> c \<in> set ''nN'')
      | _ \<Rightarrow> False)"

definition hex_form :: "string \<Rightarrow> bool" where
  "hex_form u =
     (case u of
        z # x # r \<Rightarrow>
          z = CHR ''0'' \<and> x \<in> set ''xX'' \<and>
          (starts_xdigit r \<or> (case r of [] \<Rightarrow> False | d # r' \<Rightarrow> d = CHR ''.'' \<and> starts_xdigit r'))
      | _ \<Rightarrow> False)"

definition exponent_form :: "string \<Rightarrow> bool" where
  "exponent_form r =
     (case r of
        [] \<Rightarrow> False
      | e # r' \<Rightarrow> e \<in> set ''eE'' \<and> starts_digit (snd (skip_sign r')))"

definition fraction_or_exponent :: "string \<Rightarrow> bool" where
  "fraction_or_exponent r =
     (case r of
        [] \<Rightarrow> False
      | d # r' \<Rightarrow>
          if d = CHR ''.'' then starts_digit r' \<or> exponent_form r'
          else exponent_form r)"

definition decimal :: "string \<Rightarrow> int" where
  "decimal ds = foldl (\<lambda>n c. 10 * n + (int (of_char c) - 48)) 0 ds"

definition INT_MAX :: int where
  "INT_MAX = 2147483647"

definition strtold_int :: "os \<Rightarrow> string \<Rightarrow> int option" where
  "strtold_int os s =
     (let (neg, u) = skip_sign (dropWhile c_isspace s);
          ds = takeWhile c_isdigit u;
          r = dropWhile c_isdigit u
      in if inf_or_nan u then None
         else if hex_form u then strtold_fp os s
         else if ds = [] then
           (if (case r of [] \<Rightarrow> False | d # r' \<Rightarrow> d = CHR ''.'' \<and> starts_digit r')
            then strtold_fp os s
            else Some 0)
         else if fraction_or_exponent r then strtold_fp os s
         else if neg then (if decimal ds \<le> INT_MAX + 1 then Some (- decimal ds) else None)
         else (if decimal ds \<le> INT_MAX then Some (decimal ds) else None))"

text \<open>
  A string is not numeric when \<^verbatim>\<open>strtold\<close> finds nothing to convert in it: after
  white space and an optional sign it starts neither with a digit, nor with a point
  followed by a digit, nor with INF or NAN in any case.
\<close>

definition non_numeric :: "string \<Rightarrow> bool" where
  "non_numeric s =
     (let u = snd (skip_sign (dropWhile c_isspace s))
      in \<not> starts_digit u \<and>
         \<not> (case u of [] \<Rightarrow> False | d # r \<Rightarrow> d = CHR ''.'' \<and> starts_digit r) \<and>
         \<not> inf_or_nan u)"

definition EXIT_SUCCESS :: int where
  "EXIT_SUCCESS = 0"

definition EXIT_FAILURE :: int where
  "EXIT_FAILURE = 1"

definition DEFAULT_PIN :: int where
  "DEFAULT_PIN = 4"

definition DEFAULT_SOCKET :: string where
  "DEFAULT_SOCKET = ''/var/run/lirc/lircd''"

definition sun_path_size :: nat where
  "sun_path_size = 108"

text \<open>
  \<^verbatim>\<open>getopt_long\<close> belongs to the C library too: the program is given the option
  characters it returns, in order (\<open>opts\<close>), and the operands left at
  \<^verbatim>\<open>argv[optind]\<close> and after (\<open>pos\<close>). The loop of lines 170-193; a \<^verbatim>\<open>return\<close> from
  \<^verbatim>\<open>main\<close> ends the process as \<^verbatim>\<open>exit\<close> does.
\<close>

fun getopt_loop :: "os \<Rightarrow> char list \<Rightarrow> st \<Rightarrow> unit res" where
  "getopt_loop os [] s = Running () s"
| "getopt_loop os (c # cs) s =
     (if c = CHR ''h'' then
        andThen (c_report os (Stdout ''Pulses the GPIO output pin (eg to flash an LED) whenever anything is received on the lirc socket'') s) (\<lambda>_ s.
          andThen (c_report os (Stdout ''Usage: [gpio pin] [lirc socket]'') s) (\<lambda>_ s.
            andThen (c_report os (Stdout ''-d --daemon run as daemon in background'') s) (\<lambda>_ s.
              andThen (c_report os (Stdout ''-h --help display usage summary'') s) (\<lambda>_ s.
                andThen (c_report os (Stdout ''-v --version display version'') s) (\<lambda>_ s.
                  c_exit EXIT_SUCCESS s)))))
      else if c = CHR ''v'' then
        andThen (c_report os (Stdout ''lirc-indicator v0.1'') s) (\<lambda>_ s. c_exit EXIT_SUCCESS s)
      else if c = CHR ''?'' then
        andThen (c_report os (Stderr ''unrecognized option'') s) (\<lambda>_ s.
          andThen (c_report os (Stderr ''Try --help for more information'') s) (\<lambda>_ s.
            c_exit EXIT_FAILURE s))
      else if c = CHR ''d'' then getopt_loop os cs (s\<lparr>isDaemon := 1\<rparr>)
      else getopt_loop os cs s)"

definition store_gpio_pin :: "int \<Rightarrow> st \<Rightarrow> unit res" where
  "store_gpio_pin p s = andThen (point s) (\<lambda>_ s. Running () (s\<lparr>gpio_pin := p\<rparr>))"

definition store_isExported :: "int \<Rightarrow> st \<Rightarrow> unit res" where
  "store_isExported v s = andThen (point s) (\<lambda>_ s. Running () (s\<lparr>isExported := v\<rparr>))"

text \<open>\<^verbatim>\<open>strcpy(addr.sun_path, src)\<close>: the array has \<open>sun_path_size\<close> bytes.\<close>

definition strcpy_sun_path :: "string \<Rightarrow> st \<Rightarrow> unit res" where
  "strcpy_sun_path src s =
     (if length src < sun_path_size then Running () (s\<lparr>sun_path := src\<rparr>)
      else Halted UndefinedBehaviour s)"

definition assign_pin :: "os \<Rightarrow> string \<Rightarrow> st \<Rightarrow> unit res" where
  "assign_pin os arg s =
     (case strtold_int os arg of
        None \<Rightarrow> Halted UndefinedBehaviour s
      | Some p \<Rightarrow> store_gpio_pin p s)"

text \<open>Lines 194-215.\<close>

definition parse_positional :: "os \<Rightarrow> string list \<Rightarrow> st \<Rightarrow> unit res" where
  "parse_positional os pos s =
     (if length pos = 0 then
        andThen (store_gpio_pin DEFAULT_PIN s) (\<lambda>_ s. strcpy_sun_path DEFAULT_SOCKET s)
      else if length pos = 1 then
        andThen (assign_pin os (pos ! 0) s) (\<lambda>_ s. strcpy_sun_path DEFAULT_SOCKET s)
      else if length pos = 2 then
        andThen (assign_pin os (pos ! 0) s) (\<lambda>_ s. strcpy_sun_path (pos ! 1) s)
      else
        andThen (c_report os (Stderr ''incorrect number of arguments'') s) (\<lambda>_ s.
          andThen (c_report os (Stderr ''Try --help for more information'') s) (\<lambda>_ s.
            c_exit EXIT_FAILURE s)))"

text \<open>The \<^verbatim>\<open>switch\<close> of lines 217-249.\<close>

definition valid_pins :: "int list" where
  "valid_pins =
     [0, 1, 2, 3, 4, 7, 8, 9, 10, 11, 14, 15, 17, 18, 21, 22, 23, 24, 25, 27, 28, 29, 30, 31]"

definition check_pin :: "os \<Rightarrow> st \<Rightarrow> unit res" where
  "check_pin os s =
     (if gpio_pin s \<in> set valid_pins then Running () s
      else andThen (c_report os (Stderr ''is not a valid GPIO pin nimber'') s) (\<lambda>_ s.
             c_exit EXIT_FAILURE s))"

text \<open>Lines 251-263.\<close>

definition daemonize :: "os \<Rightarrow> st \<Rightarrow> unit res" where
  "daemonize os s =
     (if isDaemon s \<noteq> 0 then
        andThen (emit (Fork (fork_res os)) s) (\<lambda>_ s.
          if fork_res os < 0 then c_exit EXIT_FAILURE s
          else if fork_res os > 0 then c_exit EXIT_SUCCESS s
          else Running () s)
      else Running () s)"

section \<open>Start-up and the event loop\<close>

text \<open>Lines 266-270: \<^verbatim>\<open>onExit\<close> becomes the handler of SIGINT.\<close>

definition c_sigaction :: "st \<Rightarrow> unit res" where
  "c_sigaction s =
     andThen (point s) (\<lambda>_ s. Running () (s\<lparr>handler := True, trace := trace s @ [Sigaction]\<rparr>))"

text \<open>Lines 273-282: both failures end in \<^verbatim>\<open>exit(errno)\<close>, not in \<^verbatim>\<open>cleanup\<close>.\<close>

definition lirc_init :: "os \<Rightarrow> st \<Rightarrow> unit res" where
  "lirc_init os s0 =
     andThen (point s0) (\<lambda>_ s.
       case socket_res os of
         Some e \<Rightarrow>
           andThen (c_report os (Perror ''socket'') (s\<lparr>errno := e, trace := trace s @ [Socket False]\<rparr>))
             (\<lambda>_ s. c_exit (errno s) s)
       | None \<Rightarrow>
           andThen (point (s\<lparr>trace := trace s @ [Socket True]\<rparr>)) (\<lambda>_ s.
             case connect_res os (sun_path s) of
               Some e \<Rightarrow>
                 andThen (c_report os (Stderr ''Unable to open LIRC socket'')
                            (s\<lparr>errno := e, trace := trace s @ [Connect (sun_path s) False]\<rparr>))
                   (\<lambda>_ s. c_exit (errno s) s)
             | None \<Rightarrow> Running () (s\<lparr>trace := trace s @ [Connect (sun_path s) True]\<rparr>)))"

text \<open>Lines 284-288.\<close>

definition gpio_init :: "os \<Rightarrow> st \<Rightarrow> unit res" where
  "gpio_init os s0 =
     andThen (exportGPIO os (gpio_pin s0) s0) (\<lambda>_ s.
       andThen (store_isExported 1 s) (\<lambda>_ s.
         setAsOutput os (gpio_pin s) s))"

text \<open>
  \<^verbatim>\<open>read(lirc_fd, buf, 128)\<close> overwrites the first bytes of \<^verbatim>\<open>buf\<close> with what
  arrived, at most 128 bytes, and leaves the rest of the array as it was.
\<close>

definition c_read :: "read_result \<Rightarrow> st \<Rightarrow> int res" where
  "c_read r s0 =
     andThen (point s0) (\<lambda>_ s.
       case r of
         ReadErr e \<Rightarrow> Running (- 1) (s\<lparr>errno := e, trace := trace s @ [Read r]\<rparr>)
       | ReadData d \<Rightarrow>
           let d' = take 128 d
           in Running (int (length d'))
                (s\<lparr>buf := d' @ drop (length d') (buf s), trace := trace s @ [Read (ReadData d')]\<rparr>))"

text \<open>
  \<^verbatim>\<open>strstr(buf, "_UP ")\<close> reads \<^verbatim>\<open>buf\<close> as a C string: the bytes before the first
  NUL. When the array holds no NUL the scan leaves the array, which is undefined.
\<close>

definition NUL :: char where
  "NUL = CHR 0x00"

definition c_string :: "string \<Rightarrow> string option" where
  "c_string mem = (if NUL \<in> set mem then Some (takeWhile (\<lambda>c. c \<noteq> NUL) mem) else None)"

fun contains :: "string \<Rightarrow> string \<Rightarrow> bool" where
  "contains [] needle = (needle = [])"
| "contains (c # cs) needle = (prefix needle (c # cs) \<or> contains cs needle)"

definition c_strstr :: "string \<Rightarrow> string \<Rightarrow> bool option" where
  "c_strstr mem needle = map_option (\<lambda>hay. contains hay needle) (c_string mem)"

text \<open>The loop of lines 292-309, one iteration for each result of \<^verbatim>\<open>read\<close>.\<close>

fun main_loop :: "os \<Rightarrow> read_result list \<Rightarrow> st \<Rightarrow> unit res" where
  "main_loop os [] s = andThen (point s) (\<lambda>_ s. Halted BlockedInRead s)"
| "main_loop os (r # rs) s =
     andThen (c_read r s) (\<lambda>i s.
       if i = - 1 then
         andThen (c_report os (Perror ''read'') s) (\<lambda>_ s. cleanup os (errno s) s)
       else
         andThen (if i = 0 then cleanup os 0 s else Running () s) (\<lambda>_ s.
           case c_strstr (buf s) ''_UP '' of
             None \<Rightarrow> Halted UndefinedBehaviour s
           | Some found \<Rightarrow>
               andThen (if \<not> found then flash os (gpio_pin s) s else Running () s) (\<lambda>_ s.
                 andThen (emit Lseek s) (\<lambda>_ s.
                   main_loop os rs s))))"

text \<open>
  \<^verbatim>\<open>main\<close> (lines 151-310). Its first part, lines 170-249, reads the command line and
  checks the pin; it is named \<open>configure\<close>.
\<close>

definition configure :: "os \<Rightarrow> char list \<Rightarrow> string list \<Rightarrow> st \<Rightarrow> unit res" where
  "configure os opts pos s0 =
     andThen (getopt_loop os opts s0) (\<lambda>_ s.
       andThen (parse_positional os pos s) (\<lambda>_ s.
         check_pin os s))"

definition main :: "os \<Rightarrow> char list \<Rightarrow> string list \<Rightarrow> st \<Rightarrow> unit res" where
  "main os opts pos s0 =
     andThen (configure os opts pos s0) (\<lambda>_ s.
       andThen (daemonize os s) (\<lambda>_ s.
         andThen (c_sigaction s) (\<lambda>_ s.
           andThen (lirc_init os s) (\<lambda>_ s.
             andThen (gpio_init os s) (\<lambda>_ s.
               main_loop os (reads os) s)))))"

text \<open>
  The process starts with the initial values of the globals (lines 38-39), 128 bytes
  of whatever the stack holds in \<^verbatim>\<open>buf\<close>, and the default disposition of SIGINT.
\<close>

definition init_st :: "os \<Rightarrow> nat option \<Rightarrow> st" where
  "init_st os k =
     \<lparr>gpio_pin = - 1, isExported = 0, errno = 0, isDaemon = 0, sun_path = [],
      buf = take 128 (stack_buf os @ replicate 128 NUL),
      handler = False, sigint_in = k, trace = []\<rparr>"

text \<open>
  SIGINT at a point of the main flow: under the default disposition the process is
  killed; otherwise \<^verbatim>\<open>onExit\<close> runs (SIGINT is blocked meanwhile) and, since it ends in
  \<^verbatim>\<open>exit\<close>, the main flow is never resumed.
\<close>

definition deliver_sigint :: "os \<Rightarrow> st \<Rightarrow> unit res" where
  "deliver_sigint os s =
     (if handler s then onExit os 2 (s\<lparr>sigint_in := None\<rparr>) else Halted KilledBySigint s)"

definition run :: "os \<Rightarrow> nat option \<Rightarrow> char list \<Rightarrow> string list \<Rightarrow> unit res" where
  "run os k opts pos =
     (case main os opts pos (init_st os k) of
        Halted SigintPending s \<Rightarrow> deliver_sigint os s
      | r \<Rightarrow> r)"

section \<open>Concrete inputs\<close>

text \<open>
  An operating system on which every call succeeds, nothing arrives on the socket and
  messages leave errno as it is.
\<close>

definition ok_os :: os where
  "ok_os =
     \<lparr>fopen_res = (\<lambda>_ _. None), fprintf_res = (\<lambda>_ _ p. case p of Num n \<Rightarrow> 2 | Out \<Rightarrow> 4),
      fork_res = 0, socket_res = None, connect_res = (\<lambda>_. None), reads = [],
      stack_buf = [], strtold_fp = (\<lambda>_. None), report_errno = (\<lambda>_ e. e)\<rparr>"

text \<open>The state of a process that has exported pin 4 and installed its handler.\<close>

definition exported4 :: st where
  "exported4 = (init_st ok_os None)\<lparr>gpio_pin := 4, isExported := 1, handler := True\<rparr>"

text \<open>The calls of one complete pulse on \<open>pin\<close>; \<open>r1\<close> and \<open>r2\<close> are what fprintf returned.\<close>

definition pulse_events :: "int \<Rightarrow> int \<Rightarrow> int \<Rightarrow> event list" where
  "pulse_events pin r1 r2 =
     [Fopen (ValueFile pin) True, Fprintf (ValueFile pin) (Num 1) r1, Fclose (ValueFile pin),
      Usleep 100000,
      Fopen (ValueFile pin) True, Fprintf (ValueFile pin) (Num 0) r2, Fclose (ValueFile pin)]"

text \<open>The calls of one successful \<^verbatim>\<open>unexportGPIO\<close>.\<close>

definition unexport_events :: "int \<Rightarrow> int \<Rightarrow> event list" where
  "unexport_events pin r =
     [Fopen UnexportFile True, Fprintf UnexportFile (Num pin) r, Fclose UnexportFile]"

text \<open>Two releases in succession.\<close>

definition release_twice :: "os \<Rightarrow> st \<Rightarrow> unit res" where
  "release_twice os s0 = andThen (release os s0) (\<lambda>_ s. release os s)"

text \<open>The calls \<^verbatim>\<open>cleanup\<close> can make: on the unexport file, or a report.\<close>

definition on_unexport :: "event \<Rightarrow> bool" where
  "on_unexport e =
     (case e of
        Fopen f _ \<Rightarrow> f = UnexportFile
      | Fprintf f _ _ \<Rightarrow> f = UnexportFile
      | Fclose f \<Rightarrow> f = UnexportFile
      | Stderr _ \<Rightarrow> True
      | _ \<Rightarrow> False)"

text \<open>The state of a process that has just started.\<close>

definition fresh :: st where
  "fresh = init_st ok_os None"

text \<open>An operating system on which nobody listens on the socket (errno 111).\<close>

definition refusing_os :: os where
  "refusing_os = ok_os\<lparr>connect_res := (\<lambda>_. Some 111)\<rparr>"

text \<open>An operating system on which the peer closes the socket at once.\<close>

definition eof_os :: os where
  "eof_os = ok_os\<lparr>reads := [ReadData []]\<rparr>"

text \<open>
  Two lines as lircd sends them: a button release (the button name carries the suffix
  \<^verbatim>\<open>_UP\<close>) and a button press. Neither contains a NUL byte.
\<close>

definition release_line :: string where
  "release_line = ''0000000000000001 00 KEY_VOLUMEUP_UP devinput'' @ [CHR 0x0A]"

definition press_line :: string where
  "press_line = ''0000000000000002 00 KEY_1 tv'' @ [CHR 0x0A]"

text \<open>The peer sends a press; and the peer sends a release, then a press.\<close>

definition press_os :: os where
  "press_os = ok_os\<lparr>reads := [ReadData press_line]\<rparr>"

definition release_press_os :: os where
  "release_press_os = ok_os\<lparr>reads := [ReadData release_line, ReadData press_line]\<rparr>"

text \<open>The peer sends a press, and the stack holds old bytes where \<^verbatim>\<open>buf\<close> is placed.\<close>

definition dirty_stack_os :: os where
  "dirty_stack_os =
     ok_os\<lparr>reads := [ReadData press_line],
           stack_buf := ''0123456789012345678901234567890123456789 KEY_OK_UP ''\<rparr>"

text \<open>The calls of a successful start-up on the default pin and socket.\<close>

definition startup_events :: "event list" where
  "startup_events =
     [Sigaction, Socket True, Connect DEFAULT_SOCKET True,
      Fopen ExportFile True, Fprintf ExportFile (Num 4) 2, Fclose ExportFile,
      Fopen (DirectionFile 4) True, Fprintf (DirectionFile 4) Out 4, Fclose (DirectionFile 4)]"

text \<open>
  The calls of a start-up that gets as far as a failing \<^verbatim>\<open>connect\<close>, from the state
  \<open>s1\<close> in which the command line has been read.
\<close>

definition connect_failed_calls :: "st \<Rightarrow> event list" where
  "connect_failed_calls s1 =
     (if isDaemon s1 \<noteq> 0 then [Fork 0] else []) @
     [Sigaction, Socket True, Connect (sun_path s1) False]"

section \<open>Properties of states and traces\<close>

definition is_gpio :: "event \<Rightarrow> bool" where
  "is_gpio e = (case e of Fopen _ _ \<Rightarrow> True | Fprintf _ _ _ \<Rightarrow> True | Fclose _ \<Rightarrow> True | _ \<Rightarrow> False)"

definition is_connect_ok :: "event \<Rightarrow> bool" where
  "is_connect_ok e = (case e of Connect _ ok \<Rightarrow> ok | _ \<Rightarrow> False)"

text \<open>The connection to the event source has been opened.\<close>

definition connected :: "event list \<Rightarrow> bool" where
  "connected t = list_ex is_connect_ok t"

text \<open>No GPIO file has been touched and the pin is not marked exported.\<close>

definition untouched :: "st \<Rightarrow> bool" where
  "untouched s = (isExported s = 0 \<and> \<not> list_ex is_gpio (trace s))"

text \<open>The state from \<^verbatim>\<open>gpio_init\<close> on: handler installed, pin checked, socket connected.\<close>

definition armed :: "st \<Rightarrow> bool" where
  "armed s = (handler s \<and> gpio_pin s \<in> set valid_pins \<and> connected (trace s))"

text \<open>A call of \<^verbatim>\<open>unexportGPIO\<close> begins by opening the unexport file.\<close>

definition is_release_call :: "event \<Rightarrow> bool" where
  "is_release_call e = (case e of Fopen f _ \<Rightarrow> f = UnexportFile | _ \<Rightarrow> False)"

definition release_calls :: "event list \<Rightarrow> nat" where
  "release_calls t = length (filter is_release_call t)"

text \<open>
  A property of states is steady when no call, no change of errno, no read into
  \<^verbatim>\<open>buf\<close> and no passing of time can destroy it.
\<close>

definition steady :: "(st \<Rightarrow> bool) \<Rightarrow> bool" where
  "steady P \<longleftrightarrow>
     (\<forall>s e. P s \<longrightarrow> P (s\<lparr>trace := trace s @ [e]\<rparr>)) \<and>
     (\<forall>s k. P s \<longrightarrow> P (s\<lparr>sigint_in := k\<rparr>)) \<and>
     (\<forall>s n. P s \<longrightarrow> P (s\<lparr>errno := n\<rparr>)) \<and>
     (\<forall>s b. P s \<longrightarrow> P (s\<lparr>buf := b\<rparr>))"

section \<open>Which calls a function can make\<close>


text \<open>
  A property of traces is kept under the events \<open>E\<close> when appending such an event
  cannot destroy it.
\<close>

definition kept_under :: "(event \<Rightarrow> bool) \<Rightarrow> (event list \<Rightarrow> bool) \<Rightarrow> bool" where
  "kept_under E Q \<longleftrightarrow> (\<forall>t e. Q t \<longrightarrow> E e \<longrightarrow> Q (t @ [e]))"

section \<open>The writes of a pulse\<close>

text \<open>The value that an event has written to a value file, if it is a successful write.\<close>

definition value_written :: "event \<Rightarrow> int list" where
  "value_written e =
     (case e of
        Fprintf f p r \<Rightarrow>
          (case f of
             ValueFile _ \<Rightarrow> (case p of Num v \<Rightarrow> if 0 \<le> r then [v] else [] | Out \<Rightarrow> [])
           | _ \<Rightarrow> [])
      | _ \<Rightarrow> [])"

definition value_writes :: "event list \<Rightarrow> int list" where
  "value_writes t = concat (map value_written t)"



section \<open>End of stream in a run\<close>




section \<open>Runs without SIGINT\<close>

lemma point_None: "sigint_in s = None \<Longrightarrow> point s = Running () s"
  by (simp add: point_def)

lemma emit_None: "sigint_in s = None \<Longrightarrow> emit e s = Running () (s\<lparr>trace := trace s @ [e]\<rparr>)"
  by (simp add: emit_def point_None)

lemma c_exit_None: "sigint_in s = None \<Longrightarrow> c_exit n s = Halted (Exit n) s"
  by (simp add: c_exit_def point_None)

lemma c_fopen_None:
  "sigint_in s = None \<Longrightarrow>
   c_fopen os f s =
     (case fopen_res os (trace s) f of
        None \<Rightarrow> Running True (s\<lparr>trace := trace s @ [Fopen f True]\<rparr>)
      | Some e \<Rightarrow> Running False (s\<lparr>errno := e, trace := trace s @ [Fopen f False]\<rparr>))"
  by (simp add: c_fopen_def point_None)

lemma c_fprintf_None:
  "sigint_in s = None \<Longrightarrow>
   c_fprintf os f p s =
     Running (fprintf_res os (trace s) f p)
       (s\<lparr>trace := trace s @ [Fprintf f p (fprintf_res os (trace s) f p)]\<rparr>)"
  by (simp add: c_fprintf_def point_None Let_def)

lemma c_report_None:
  "sigint_in s = None \<Longrightarrow>
   c_report os e s =
     Running () (s\<lparr>errno := report_errno os (trace s) (errno s), trace := trace s @ [e]\<rparr>)"
  by (simp add: c_report_def point_None)

lemmas no_sigint = point_None emit_None c_report_None c_exit_None c_fopen_None c_fprintf_None

lemma unexportGPIO_ok:
  assumes "sigint_in s = None"
    and "fopen_res os (trace s) UnexportFile = None"
    and "fprintf_res os (trace s @ [Fopen UnexportFile True]) UnexportFile (Num pin) = r"
    and "0 \<le> r"
  shows "unexportGPIO os pin s =
     Running () (s\<lparr>errno := r,
        trace := trace s @ [Fopen UnexportFile True, Fprintf UnexportFile (Num pin) r,
                            Fclose UnexportFile]\<rparr>)"
  using assms by (simp add: unexportGPIO_def no_sigint)


section \<open>What a returning call has done\<close>

text \<open>These hold whenever the call returns, with or without a pending SIGINT.\<close>

lemma point_Running: "point s = Running u s' \<Longrightarrow> trace s' = trace s \<and> isExported s' = isExported s \<and> gpio_pin s' = gpio_pin s"
  by (auto simp: point_def split: option.splits nat.splits)

lemma c_exit_Halted: "c_exit n s \<noteq> Running a s'"
  by (auto simp: c_exit_def point_def split: option.splits nat.splits)

lemma andThen_Running: "andThen r f = Running b s' \<longleftrightarrow> (\<exists>a s. r = Running a s \<and> f a s = Running b s')"
  by (cases r) auto


lemma emit_Running: "emit e s = Running u s' \<Longrightarrow> trace s' = trace s @ [e] \<and> isExported s' = isExported s \<and> gpio_pin s' = gpio_pin s"
  by (auto simp: emit_def andThen_Running dest!: point_Running)

lemma c_fopen_Running: "c_fopen os f s = Running b s' \<Longrightarrow> trace s' = trace s @ [Fopen f b] \<and> isExported s' = isExported s \<and> gpio_pin s' = gpio_pin s"
  by (auto simp: c_fopen_def andThen_Running split: option.splits dest!: point_Running)

lemma c_fprintf_Running: "c_fprintf os f p s = Running r s' \<Longrightarrow> trace s' = trace s @ [Fprintf f p r] \<and> isExported s' = isExported s \<and> gpio_pin s' = gpio_pin s"
  by (auto simp: c_fprintf_def andThen_Running Let_def dest!: point_Running)

lemma unexportGPIO_Running:
  "unexportGPIO os pin s = Running u s' \<Longrightarrow>
   \<exists>r\<ge>0. trace s' = trace s @ [Fopen UnexportFile True, Fprintf UnexportFile (Num pin) r, Fclose UnexportFile]
     \<and> isExported s' = isExported s \<and> gpio_pin s' = gpio_pin s"
  by (auto simp: unexportGPIO_def andThen_Running c_exit_Halted Let_def split: if_splits
      dest!: c_fopen_Running c_fprintf_Running emit_Running)


section \<open>Release\<close>

lemma release_Running:
  "release os s = Running u s' \<Longrightarrow>
   isExported s' = isExported s \<and> gpio_pin s' = gpio_pin s \<and>
   (if isExported s \<noteq> 0 \<and> 0 \<le> gpio_pin s
    then \<exists>r\<ge>0. trace s' = trace s @ unexport_events (gpio_pin s) r
    else s' = s)"
  by (auto simp: release_def unexport_events_def split: if_splits dest!: unexportGPIO_Running)

lemma release_ok:
  assumes "sigint_in s = None" "isExported s \<noteq> 0" "0 \<le> gpio_pin s"
    and "fopen_res os (trace s) UnexportFile = None"
    and "fprintf_res os (trace s @ [Fopen UnexportFile True]) UnexportFile (Num (gpio_pin s)) = r"
    and "0 \<le> r"
  shows "release os s =
     Running () (s\<lparr>errno := r, trace := trace s @ unexport_events (gpio_pin s) r\<rparr>)"
  using assms by (simp add: release_def unexportGPIO_ok unexport_events_def)

text \<open>
  Claim C4, as amended. When \<^verbatim>\<open>isExported\<close> is 0 (or the pin is negative) the release is
  a no-op, once or twice. When the pin is exported, a release that returns has written
  the pin number to the unexport file and has left \<^verbatim>\<open>isExported\<close> as it was, so a
  second release in succession writes the pin number again: two releases make two
  writes where one release makes one. Both releases do return when the unexport file
  can be opened and written.
\<close>

theorem release_repeats_write:
  "(isExported s = 0 \<or> gpio_pin s < 0 \<longrightarrow>
      release os s = Running () s \<and> release_twice os s = Running () s) \<and>
   (isExported s \<noteq> 0 \<and> 0 \<le> gpio_pin s \<and>
    release os s = Running () s1 \<and> release_twice os s = Running () s2 \<longrightarrow>
      isExported s1 = isExported s \<and> isExported s2 = isExported s \<and>
      (\<exists>r1 r2. trace s1 = trace s @ unexport_events (gpio_pin s) r1 \<and>
               trace s2 = trace s @ unexport_events (gpio_pin s) r1
                                  @ unexport_events (gpio_pin s) r2)) \<and>
   (isExported s \<noteq> 0 \<and> 0 \<le> gpio_pin s \<and> sigint_in s = None \<and>
    (\<forall>t. fopen_res os t UnexportFile = None) \<and>
    (\<forall>t p. 0 \<le> fprintf_res os t UnexportFile p) \<longrightarrow>
      (\<exists>s2. release_twice os s = Running () s2))"
proof (intro conjI impI)
  assume "isExported s = 0 \<or> gpio_pin s < 0"
  then show "release os s = Running () s" "release_twice os s = Running () s"
    by (auto simp: release_def release_twice_def)
next
  assume h: "isExported s \<noteq> 0 \<and> 0 \<le> gpio_pin s \<and>
    release os s = Running () s1 \<and> release_twice os s = Running () s2"
  then have a: "release os s = Running () s1" and b: "release os s1 = Running () s2"
    by (auto simp: release_twice_def)
  from release_Running [OF a] h obtain r1 where
    s1: "isExported s1 = isExported s" "gpio_pin s1 = gpio_pin s"
        "trace s1 = trace s @ unexport_events (gpio_pin s) r1"
    by auto
  from release_Running [OF b] h s1 obtain r2 where
    s2: "isExported s2 = isExported s"
        "trace s2 = trace s1 @ unexport_events (gpio_pin s) r2"
    by auto
  show "isExported s1 = isExported s" by (rule s1)
  show "isExported s2 = isExported s" by (rule s2)
  show "\<exists>r1 r2. trace s1 = trace s @ unexport_events (gpio_pin s) r1 \<and>
               trace s2 = trace s @ unexport_events (gpio_pin s) r1
                                  @ unexport_events (gpio_pin s) r2"
    using s1 s2 by auto
next
  assume h: "isExported s \<noteq> 0 \<and> 0 \<le> gpio_pin s \<and> sigint_in s = None \<and>
    (\<forall>t. fopen_res os t UnexportFile = None) \<and>
    (\<forall>t p. 0 \<le> fprintf_res os t UnexportFile p)"
  then show "\<exists>s2. release_twice os s = Running () s2"
    by (simp add: release_twice_def release_ok [where r = "fprintf_res os _ _ _"])
qed

theorem release_repeats_write_witness:
  "release ok_os (init_st ok_os None) = Running () (init_st ok_os None) \<and>
   (\<exists>s2. release_twice ok_os exported4 = Running () s2) \<and>
   isExported (final (release_twice ok_os exported4)) = 1"
proof -
  have e: "isExported exported4 \<noteq> 0 \<and> 0 \<le> gpio_pin exported4 \<and> sigint_in exported4 = None \<and>
    (\<forall>t. fopen_res ok_os t UnexportFile = None) \<and>
    (\<forall>t p. 0 \<le> fprintf_res ok_os t UnexportFile p)"
    by (simp add: exported4_def init_st_def ok_os_def split: payload.split)
  have n: "isExported (init_st ok_os None) = 0 \<or> gpio_pin (init_st ok_os None) < 0"
    by (simp add: init_st_def)
  have 1: "release ok_os (init_st ok_os None) = Running () (init_st ok_os None)"
    using release_repeats_write [of "init_st ok_os None" ok_os] n by blast
  from release_repeats_write [of exported4 ok_os] e
  obtain s2 where s2: "release_twice ok_os exported4 = Running () s2" by blast
  then obtain s1 where s1: "release ok_os exported4 = Running () s1"
    by (auto simp: release_twice_def andThen_Running)
  from release_repeats_write [of exported4 ok_os s1 s2] e s1 s2
  have "isExported s2 = isExported exported4" by blast
  then have 3: "isExported (final (release_twice ok_os exported4)) = 1"
    using s2 by (simp add: exported4_def)
  from 1 s2 3 show ?thesis by blast
qed

text \<open>
  Claim C4 as stated fails on an exported pin 4: one release makes one write to the
  unexport file, two releases make two.
\<close>

theorem release_twice_counterexample:
  "trace (final (release ok_os exported4)) =
     [Fopen UnexportFile True, Fprintf UnexportFile (Num 4) 2, Fclose UnexportFile] \<and>
   trace (final (release_twice ok_os exported4)) =
     [Fopen UnexportFile True, Fprintf UnexportFile (Num 4) 2, Fclose UnexportFile,
      Fopen UnexportFile True, Fprintf UnexportFile (Num 4) 2, Fclose UnexportFile] \<and>
   release_twice ok_os exported4 \<noteq> release ok_os exported4"
  by (simp add: release_twice_def release_def unexportGPIO_def no_sigint exported4_def
      init_st_def ok_os_def)

section \<open>The range check of setValue\<close>

lemma cleanup_not_exported:
  "sigint_in s = None \<Longrightarrow> isExported s = 0 \<or> gpio_pin s < 0 \<Longrightarrow>
   cleanup os n s = Halted (Exit n) s"
  by (auto simp: cleanup_def release_def no_sigint)

lemma cleanup_exported_ok:
  assumes "sigint_in s = None" "isExported s \<noteq> 0" "0 \<le> gpio_pin s"
    and "fopen_res os (trace s) UnexportFile = None"
    and "fprintf_res os (trace s @ [Fopen UnexportFile True]) UnexportFile (Num (gpio_pin s)) = r"
    and "0 \<le> r"
  shows "cleanup os n s =
     Halted (Exit n) (s\<lparr>errno := r, trace := trace s @ unexport_events (gpio_pin s) r\<rparr>)"
  using assms by (simp add: cleanup_def release_ok no_sigint)

lemma cleanup_events:
  assumes "sigint_in s = None"
  shows "\<exists>c s' t. cleanup os n s = Halted c s' \<and> trace s' = trace s @ t \<and> list_all on_unexport t"
  using assms
  by (auto simp: cleanup_def release_def unexportGPIO_def no_sigint Let_def on_unexport_def
      split: option.splits)

text \<open>
  Claim C2, as amended. For every value other than 0 and 1, \<^verbatim>\<open>setValue\<close> reports the
  invalid value and then runs \<^verbatim>\<open>cleanup(0)\<close>: it never returns to its caller, the
  process ends, and no call is made on the value file. With no pin exported the process
  exits with status 0 at once; with a pin exported the pin number is first written to
  the unexport file, and when that write succeeds the exit status is 0.
\<close>

theorem setValue_rejects_and_exits:
  assumes "v \<noteq> 0" and "v \<noteq> 1" and "sigint_in s = None"
  shows "(\<exists>c s' t. setValue os pin v s = Halted c s' \<and>
            trace s' = trace s @ Stderr ''Value can only be 0 or 1'' # t \<and>
            list_all on_unexport t) \<and>
         (isExported s = 0 \<or> gpio_pin s < 0 \<longrightarrow>
            setValue os pin v s =
              Halted (Exit 0)
                (s\<lparr>errno := report_errno os (trace s) (errno s),
                   trace := trace s @ [Stderr ''Value can only be 0 or 1'']\<rparr>)) \<and>
         (isExported s \<noteq> 0 \<and> 0 \<le> gpio_pin s \<and>
          fopen_res os (trace s @ [Stderr ''Value can only be 0 or 1'']) UnexportFile = None \<and>
          0 \<le> fprintf_res os (trace s @ [Stderr ''Value can only be 0 or 1'',
                 Fopen UnexportFile True]) UnexportFile (Num (gpio_pin s)) \<longrightarrow>
            (\<exists>s'. setValue os pin v s = Halted (Exit 0) s' \<and>
                  trace s' = trace s @ Stderr ''Value can only be 0 or 1''
                                       # unexport_events (gpio_pin s) (errno s')))"
proof -
  let ?m = "Stderr ''Value can only be 0 or 1''"
  let ?s1 = "s\<lparr>errno := report_errno os (trace s) (errno s), trace := trace s @ [?m]\<rparr>"
  have sv: "setValue os pin v s = cleanup os 0 ?s1"
    using assms by (simp add: setValue_def no_sigint)
  have n1: "sigint_in ?s1 = None" using assms by simp
  show ?thesis
  proof (intro conjI impI)
    from cleanup_events [OF n1, of os 0]
    show "\<exists>c s' t. setValue os pin v s = Halted c s' \<and> trace s' = trace s @ ?m # t \<and>
            list_all on_unexport t"
      by (auto simp: sv)
  next
    assume "isExported s = 0 \<or> gpio_pin s < 0"
    then show "setValue os pin v s = Halted (Exit 0) ?s1"
      using cleanup_not_exported [OF n1, of os 0] by (simp add: sv)
  next
    assume h: "isExported s \<noteq> 0 \<and> 0 \<le> gpio_pin s \<and>
          fopen_res os (trace s @ [?m]) UnexportFile = None \<and>
          0 \<le> fprintf_res os (trace s @ [?m, Fopen UnexportFile True]) UnexportFile
                 (Num (gpio_pin s))"
    define r where "r = fprintf_res os (trace s @ [?m, Fopen UnexportFile True]) UnexportFile
                 (Num (gpio_pin s))"
    have "(cleanup os 0 ?s1 :: unit res) =
            Halted (Exit 0) (?s1\<lparr>errno := r, trace := trace ?s1 @ unexport_events (gpio_pin ?s1) r\<rparr>)"
      using h by (intro cleanup_exported_ok [OF n1]) (simp_all add: r_def)
    then show "\<exists>s'. setValue os pin v s = Halted (Exit 0) s' \<and>
                  trace s' = trace s @ ?m # unexport_events (gpio_pin s) (errno s')"
      by (simp add: sv)
  qed
qed

theorem setValue_rejects_and_exits_witness:
  "setValue ok_os 4 2 fresh = Halted (Exit 0) (fresh\<lparr>trace := [Stderr ''Value can only be 0 or 1'']\<rparr>)"
proof -
  have "(2::int) \<noteq> 0" "(2::int) \<noteq> 1" "sigint_in fresh = None" "isExported fresh = 0"
    "trace fresh = []"
    by (simp_all add: fresh_def init_st_def)
  moreover have "report_errno ok_os [] (errno fresh) = errno fresh"
    by (simp add: ok_os_def)
  ultimately show ?thesis
    using setValue_rejects_and_exits [of 2 fresh ok_os 4] by simp
qed

text \<open>
  Claim C2 as stated fails for the value 2 on an exported pin 4: the call ends the
  process with status 0, and before that it writes to the unexport file.
\<close>

theorem setValue_not_fatal_counterexample:
  "setValue ok_os 4 2 exported4 =
     Halted (Exit 0)
       (exported4\<lparr>errno := 2,
          trace := [Stderr ''Value can only be 0 or 1'', Fopen UnexportFile True,
                    Fprintf UnexportFile (Num 4) 2, Fclose UnexportFile]\<rparr>)"
  by (simp add: setValue_def cleanup_def release_def unexportGPIO_def no_sigint exported4_def
      init_st_def ok_os_def)

section \<open>End of stream\<close>



section \<open>The command line\<close>

lemma getopt_loop_daemon_only:
  "CHR ''h'' \<notin> set opts \<Longrightarrow> CHR ''v'' \<notin> set opts \<Longrightarrow> CHR ''?'' \<notin> set opts \<Longrightarrow>
   getopt_loop os opts s =
     Running () (if CHR ''d'' \<in> set opts then s\<lparr>isDaemon := 1\<rparr> else s)"
  by (induction opts arbitrary: s) auto

lemma strtold_int_non_numeric: "non_numeric arg \<Longrightarrow> strtold_int os arg = Some 0"
proof -
  assume n: "non_numeric arg"
  obtain neg u where u: "skip_sign (dropWhile c_isspace arg) = (neg, u)"
    by (cases "skip_sign (dropWhile c_isspace arg)")
  from n u have a: "\<not> starts_digit u" "\<not> inf_or_nan u"
    "\<not> (case u of [] \<Rightarrow> False | d # r \<Rightarrow> d = CHR ''.'' \<and> starts_digit r)"
    by (simp_all add: non_numeric_def)
  from a(1) have d: "takeWhile c_isdigit u = []" "dropWhile c_isdigit u = u"
    by (cases u; simp add: starts_digit_def)+
  from a(1) have h: "\<not> hex_form u"
    by (auto simp: hex_form_def starts_digit_def c_isdigit_def split: list.splits)
  show ?thesis
    using a d h by (simp add: strtold_int_def u)
qed

text \<open>
  Claim C10. With one or two operands, a first operand in which \<^verbatim>\<open>strtold\<close> finds
  nothing to convert gives the value 0, which is stored in \<^verbatim>\<open>gpio_pin\<close>; 0 is in the
  list of valid pins, so the check of lines 217-249 passes and nothing is reported.
\<close>

theorem non_numeric_pin_becomes_pin_0:
  assumes "non_numeric arg"
    and "pos = [arg] \<or> (pos = [arg, path] \<and> length path < sun_path_size)"
    and "CHR ''h'' \<notin> set opts" and "CHR ''v'' \<notin> set opts" and "CHR ''?'' \<notin> set opts"
  shows "strtold_int os arg = Some 0 \<and> 0 \<in> set valid_pins \<and>
         (\<exists>s. configure os opts pos (init_st os None) = Running () s \<and>
              gpio_pin s = 0 \<and> trace s = [])"
proof -
  have v: "0 \<in> set valid_pins"
    by (simp add: valid_pins_def)
  have "\<exists>s. configure os opts pos (init_st os None) = Running () s \<and>
              gpio_pin s = 0 \<and> trace s = []"
    using assms v
    by (auto simp: configure_def getopt_loop_daemon_only parse_positional_def assign_pin_def
        strtold_int_non_numeric store_gpio_pin_def no_sigint init_st_def strcpy_sun_path_def
        check_pin_def DEFAULT_SOCKET_def sun_path_size_def)
  with v assms(1) show ?thesis
    by (simp add: strtold_int_non_numeric)
qed

theorem non_numeric_pin_becomes_pin_0_witness:
  "strtold_int ok_os ''abc'' = Some 0 \<and>
   (\<exists>s. configure ok_os [] [''abc''] (init_st ok_os None) = Running () s \<and>
        gpio_pin s = 0 \<and> trace s = [])"
proof -
  have "non_numeric ''abc''"
    by (simp add: non_numeric_def c_isspace_def skip_sign_def starts_digit_def c_isdigit_def
        inf_or_nan_def)
  from non_numeric_pin_becomes_pin_0 [OF this, of "[''abc'']" "[]" "[]" ok_os]
  show ?thesis by simp
qed

text \<open>
  Claim C6. When the first operand denotes a pin that is not in the list of valid pins,
  the process reports this on the error stream and ends with \<open>EXIT_FAILURE\<close>; that
  report is the only call it has made, so no GPIO file has been opened or written, and
  \<^verbatim>\<open>isExported\<close> is still 0.
\<close>

theorem invalid_pin_touches_no_gpio:
  assumes "strtold_int os arg = Some p" and "p \<notin> set valid_pins"
    and "pos = [arg] \<or> (pos = [arg, path] \<and> length path < sun_path_size)"
    and "CHR ''h'' \<notin> set opts" and "CHR ''v'' \<notin> set opts" and "CHR ''?'' \<notin> set opts"
  shows "\<exists>s. run os None opts pos = Halted (Exit EXIT_FAILURE) s \<and>
             trace s = [Stderr ''is not a valid GPIO pin nimber''] \<and>
             isExported s = 0 \<and> gpio_pin s = p"
  using assms
  by (auto simp: run_def main_def configure_def getopt_loop_daemon_only parse_positional_def
      assign_pin_def store_gpio_pin_def no_sigint init_st_def strcpy_sun_path_def
      check_pin_def DEFAULT_SOCKET_def sun_path_size_def)

theorem invalid_pin_touches_no_gpio_witness:
  "\<exists>s. run ok_os None [] [''5''] = Halted (Exit EXIT_FAILURE) s \<and>
       trace s = [Stderr ''is not a valid GPIO pin nimber''] \<and>
       isExported s = 0 \<and> gpio_pin s = 5"
proof -
  have "strtold_int ok_os ''5'' = Some 5"
    by (simp add: strtold_int_def c_isspace_def skip_sign_def c_isdigit_def inf_or_nan_def
        hex_form_def fraction_or_exponent_def decimal_def INT_MAX_def)
  moreover have "(5::int) \<notin> set valid_pins"
    by (simp add: valid_pins_def)
  ultimately show ?thesis
    using invalid_pin_touches_no_gpio [of ok_os "''5''" 5 "[''5'']" "[]" "[]"] by simp
qed

section \<open>What every call preserves\<close>

lemma inv_andThen:
  "P (final r) \<Longrightarrow> (\<And>a s. P s \<Longrightarrow> P (final (f a s))) \<Longrightarrow> P (final (andThen r f))"
  by (cases r) auto

lemma steady_trace: "steady P \<Longrightarrow> P s \<Longrightarrow> P (s\<lparr>trace := trace s @ [e]\<rparr>)"
  and steady_sigint: "steady P \<Longrightarrow> P s \<Longrightarrow> P (s\<lparr>sigint_in := k\<rparr>)"
  and steady_errno: "steady P \<Longrightarrow> P s \<Longrightarrow> P (s\<lparr>errno := n\<rparr>)"
  and steady_buf: "steady P \<Longrightarrow> P s \<Longrightarrow> P (s\<lparr>buf := b\<rparr>)"
  by (simp_all add: steady_def)

lemma steady_point: "steady P \<Longrightarrow> P s \<Longrightarrow> P (final (point s))"
  by (auto simp: point_def steady_sigint split: option.splits nat.splits)

lemma steady_emit: "steady P \<Longrightarrow> P s \<Longrightarrow> P (final (emit e s))"
  unfolding emit_def by (rule inv_andThen) (auto simp: steady_point steady_trace)

lemma steady_c_report: "steady P \<Longrightarrow> P s \<Longrightarrow> P (final (c_report os e s))"
proof -
  assume st: "steady P" and "P s"
  have "\<And>s n. P s \<Longrightarrow> P (s\<lparr>errno := n, trace := trace s @ [e]\<rparr>)"
    using steady_trace [OF st steady_errno [OF st]] by simp
  with st \<open>P s\<close> show ?thesis
    unfolding c_report_def
    by (intro inv_andThen [where P = P]) (auto simp: steady_point)
qed

lemma steady_c_exit: "steady P \<Longrightarrow> P s \<Longrightarrow> P (final (c_exit n s))"
  unfolding c_exit_def by (rule inv_andThen) (auto simp: steady_point)

lemma steady_c_fopen: "steady P \<Longrightarrow> P s \<Longrightarrow> P (final (c_fopen os f s))"
proof -
  assume st: "steady P" and "P s"
  have "\<And>s e. P s \<Longrightarrow> P (s\<lparr>errno := e, trace := trace s @ [Fopen f False]\<rparr>)"
    using steady_trace [OF st steady_errno [OF st]] by simp
  with st \<open>P s\<close> show ?thesis
    unfolding c_fopen_def
    by (intro inv_andThen [where P = P]) (auto simp: steady_point steady_trace split: option.splits)
qed

lemma steady_c_fprintf: "steady P \<Longrightarrow> P s \<Longrightarrow> P (final (c_fprintf os f p s))"
  unfolding c_fprintf_def
  by (rule inv_andThen) (auto simp: steady_point steady_trace Let_def)

lemma steady_c_read: "steady P \<Longrightarrow> P s \<Longrightarrow> P (final (c_read r s))"
proof -
  assume st: "steady P" and "P s"
  have a: "\<And>s e x. P s \<Longrightarrow> P (s\<lparr>errno := e, trace := trace s @ [x]\<rparr>)"
    using steady_trace [OF st steady_errno [OF st]] by simp
  have b: "\<And>s d x. P s \<Longrightarrow> P (s\<lparr>buf := d, trace := trace s @ [x]\<rparr>)"
    using steady_trace [OF st steady_buf [OF st]] by simp
  from st \<open>P s\<close> show ?thesis
    unfolding c_read_def
    by (intro inv_andThen [where P = P])
       (auto simp: steady_point a b Let_def split: read_result.splits)
qed

lemmas steady_prims = steady_point steady_emit steady_c_report steady_c_exit steady_c_fopen steady_c_fprintf
  steady_c_read steady_errno

lemma if_final: "(c \<Longrightarrow> P (final x)) \<Longrightarrow> (\<not> c \<Longrightarrow> P (final y)) \<Longrightarrow> P (final (if c then x else y))"
  by simp

lemma let_final: "P (final (f v)) \<Longrightarrow> P (final (Let v f))"
  by simp

lemma steady_unexportGPIO: "steady P \<Longrightarrow> P s \<Longrightarrow> P (final (unexportGPIO os pin s))"
  unfolding unexportGPIO_def
  by (intro inv_andThen [where P = P] if_final [where P = P] let_final [where P = P]
      steady_prims [where P = P]; assumption)

lemma steady_release: "steady P \<Longrightarrow> P s \<Longrightarrow> P (final (release os s))"
  by (simp add: release_def steady_unexportGPIO)

lemma steady_cleanup: "steady P \<Longrightarrow> P s \<Longrightarrow> P (final (cleanup os n s))"
  unfolding cleanup_def
  by (intro inv_andThen [where P = P] steady_release [where P = P] steady_prims [where P = P]; assumption)

lemma steady_onExit: "steady P \<Longrightarrow> P s \<Longrightarrow> P (final (onExit os n s))"
  by (simp add: onExit_def steady_cleanup)

lemmas steady_calls = inv_andThen if_final let_final steady_prims steady_cleanup

lemma steady_exportGPIO: "steady P \<Longrightarrow> P s \<Longrightarrow> P (final (exportGPIO os pin s))"
  unfolding exportGPIO_def
  by (intro steady_calls [where P = P]; assumption)

lemma steady_setAsOutput: "steady P \<Longrightarrow> P s \<Longrightarrow> P (final (setAsOutput os pin s))"
  unfolding setAsOutput_def
  by (intro steady_calls [where P = P]; assumption)

lemma steady_setValue: "steady P \<Longrightarrow> P s \<Longrightarrow> P (final (setValue os pin v s))"
  unfolding setValue_def
  by (intro steady_calls [where P = P]; assumption)

lemma steady_flash: "steady P \<Longrightarrow> P s \<Longrightarrow> P (final (flash os pin s))"
  unfolding flash_def
  by (intro steady_calls [where P = P] steady_setValue [where P = P]; assumption)

lemma steady_main_loop: "steady P \<Longrightarrow> P s \<Longrightarrow> P (final (main_loop os rs s))"
proof (induction rs arbitrary: s)
  case Nil
  then show ?case
    by (simp, intro steady_calls [where P = P]) simp_all
next
  case (Cons r rs)
  have c: "\<And>x s. P s \<Longrightarrow>
     P (final (case x of None \<Rightarrow> Halted UndefinedBehaviour s
        | Some found \<Rightarrow> andThen (if \<not> found then flash os (gpio_pin s) s else Running () s)
            (\<lambda>_ s. andThen (emit Lseek s) (\<lambda>_ s. main_loop os rs s))))"
    subgoal for x s
      apply (cases x)
       apply simp
      apply (simp split del: if_split)
      apply (intro steady_calls [where P = P] steady_flash [where P = P] Cons.prems(1) Cons.IH; simp)
      done
    done
  show ?case
    apply (simp only: main_loop.simps)
    apply (intro steady_calls [where P = P] Cons.prems c)
         apply simp_all
    done
qed

lemma steady_gpio_init:
  "steady P \<Longrightarrow> (\<And>s. P s \<Longrightarrow> P (s\<lparr>isExported := 1\<rparr>)) \<Longrightarrow> P s \<Longrightarrow>
   P (final (gpio_init os s))"
  unfolding gpio_init_def store_isExported_def
  by (intro steady_calls [where P = P] steady_exportGPIO [where P = P]
      steady_setAsOutput [where P = P]; simp)

lemma steady_daemonize: "steady P \<Longrightarrow> P s \<Longrightarrow> P (final (daemonize os s))"
  unfolding daemonize_def
  by (intro steady_calls [where P = P]; simp)

lemma steady_c_sigaction:
  "steady P \<Longrightarrow> (\<And>s. P s \<Longrightarrow> P (s\<lparr>handler := True\<rparr>)) \<Longrightarrow> P s \<Longrightarrow>
   P (final (c_sigaction s))"
proof -
  assume st: "steady P" and h: "\<And>s. P s \<Longrightarrow> P (s\<lparr>handler := True\<rparr>)" and "P s"
  have "\<And>s. P s \<Longrightarrow> P (s\<lparr>handler := True, trace := trace s @ [Sigaction]\<rparr>)"
    using steady_trace [OF st h] by simp
  with st \<open>P s\<close> show ?thesis
    unfolding c_sigaction_def
    by (intro steady_calls [where P = P]; simp)
qed

lemma steady_lirc_init: "steady P \<Longrightarrow> P s \<Longrightarrow> P (final (lirc_init os s))"
proof -
  assume st: "steady P" and "P s"
  have a: "\<And>s x. P s \<Longrightarrow> P (s\<lparr>trace := trace s @ [x]\<rparr>)"
    using steady_trace [OF st] by simp
  have b: "\<And>s e x. P s \<Longrightarrow> P (s\<lparr>errno := e, trace := trace s @ [x]\<rparr>)"
    using steady_trace [OF st steady_errno [OF st]] by simp
  have c: "\<And>x s. P s \<Longrightarrow>
     P (final (case x of
         Some e \<Rightarrow>
           andThen (c_report os (Stderr ''Unable to open LIRC socket'')
                      (s\<lparr>errno := e, trace := trace s @ [Connect (sun_path s) False]\<rparr>))
             (\<lambda>_ s. c_exit (errno s) s)
       | None \<Rightarrow> Running () (s\<lparr>trace := trace s @ [Connect (sun_path s) True]\<rparr>)))"
    subgoal for x s
      apply (cases x)
       apply (simp add: a)
      apply simp
      apply (intro steady_calls [where P = P] st; simp add: b)
      done
    done
  have d: "\<And>s. P s \<Longrightarrow>
     P (final (case socket_res os of
         Some e \<Rightarrow>
           andThen (c_report os (Perror ''socket'') (s\<lparr>errno := e, trace := trace s @ [Socket False]\<rparr>))
             (\<lambda>_ s. c_exit (errno s) s)
       | None \<Rightarrow>
           andThen (point (s\<lparr>trace := trace s @ [Socket True]\<rparr>)) (\<lambda>_ s.
             case connect_res os (sun_path s) of
               Some e \<Rightarrow>
                 andThen (c_report os (Stderr ''Unable to open LIRC socket'')
                            (s\<lparr>errno := e, trace := trace s @ [Connect (sun_path s) False]\<rparr>))
                   (\<lambda>_ s. c_exit (errno s) s)
             | None \<Rightarrow> Running () (s\<lparr>trace := trace s @ [Connect (sun_path s) True]\<rparr>))))"
    subgoal for s
      apply (cases "socket_res os")
       apply (simp only: option.case)
       apply (intro steady_calls [where P = P] st c; simp add: a)
      apply (simp only: option.case)
      apply (intro steady_calls [where P = P] st; simp add: b)
      done
    done
  from st \<open>P s\<close> show ?thesis
    unfolding lirc_init_def
    by (intro steady_calls [where P = P] d; simp)
qed

section \<open>Before the connection\<close>

lemma untouched_point: "untouched s \<Longrightarrow> untouched (final (point s))"
  by (auto simp: point_def untouched_def split: option.splits nat.splits)

lemma untouched_emit: "\<not> is_gpio e \<Longrightarrow> untouched s \<Longrightarrow> untouched (final (emit e s))"
  by (auto simp: emit_def point_def untouched_def split: option.splits nat.splits)

lemma untouched_c_report:
  "\<not> is_gpio e \<Longrightarrow> untouched s \<Longrightarrow> untouched (final (c_report os e s))"
  by (auto simp: c_report_def point_def untouched_def split: option.splits nat.splits)

lemma untouched_c_exit: "untouched s \<Longrightarrow> untouched (final (c_exit n s))"
  by (auto simp: c_exit_def point_def untouched_def split: option.splits nat.splits)

lemma untouched_store_gpio_pin: "untouched s \<Longrightarrow> untouched (final (store_gpio_pin p s))"
  by (auto simp: store_gpio_pin_def point_def untouched_def split: option.splits nat.splits)

lemma untouched_strcpy: "untouched s \<Longrightarrow> untouched (final (strcpy_sun_path p s))"
  by (auto simp: strcpy_sun_path_def untouched_def)

lemma untouched_assign_pin: "untouched s \<Longrightarrow> untouched (final (assign_pin os a s))"
  by (auto simp: assign_pin_def untouched_store_gpio_pin split: option.splits)

lemmas untouched_calls = inv_andThen [where P = untouched] if_final [where P = untouched]
  untouched_point untouched_emit untouched_c_report untouched_c_exit untouched_store_gpio_pin untouched_strcpy
  untouched_assign_pin

lemma untouched_getopt_loop: "untouched s \<Longrightarrow> untouched (final (getopt_loop os opts s))"
proof (induction opts arbitrary: s)
  case Nil
  then show ?case by simp
next
  case (Cons c cs)
  have d: "untouched (s\<lparr>isDaemon := 1\<rparr>)"
    using Cons.prems by (simp add: untouched_def)
  show ?case
    apply (simp only: getopt_loop.simps)
    apply (intro untouched_calls Cons.IH Cons.prems d; simp add: is_gpio_def)
    done
qed

lemma untouched_parse_positional:
  "untouched s \<Longrightarrow> untouched (final (parse_positional os pos s))"
  unfolding parse_positional_def
  by (intro untouched_calls; simp add: is_gpio_def)

lemma untouched_check_pin: "untouched s \<Longrightarrow> untouched (final (check_pin os s))"
  unfolding check_pin_def
  by (intro untouched_calls; simp add: is_gpio_def)

lemma untouched_configure: "untouched s \<Longrightarrow> untouched (final (configure os opts pos s))"
  unfolding configure_def
  by (intro untouched_calls untouched_getopt_loop untouched_parse_positional untouched_check_pin;
      simp)

lemma untouched_daemonize: "untouched s \<Longrightarrow> untouched (final (daemonize os s))"
  unfolding daemonize_def
  by (intro untouched_calls; simp add: is_gpio_def)

lemma untouched_c_sigaction: "untouched s \<Longrightarrow> untouched (final (c_sigaction s))"
  by (auto simp: c_sigaction_def point_def untouched_def is_gpio_def
      split: option.splits nat.splits)

lemma untouched_lirc_init: "untouched s \<Longrightarrow> untouched (final (lirc_init os s))"
  by (auto simp: lirc_init_def c_report_def c_exit_def point_def untouched_def is_gpio_def
      split: option.splits nat.splits)

lemma check_pin_Running: "check_pin os s = Running u s' \<Longrightarrow> gpio_pin s' \<in> set valid_pins"
  by (auto simp: check_pin_def andThen_Running c_exit_Halted split: if_splits)

lemma configure_Running:
  "configure os opts pos s = Running u s' \<Longrightarrow> gpio_pin s' \<in> set valid_pins"
  by (auto simp: configure_def andThen_Running dest: check_pin_Running)

lemma c_sigaction_Running: "c_sigaction s = Running u s' \<Longrightarrow> handler s'"
  by (auto simp: c_sigaction_def andThen_Running)

lemma lirc_init_Running: "lirc_init os s = Running u s' \<Longrightarrow> connected (trace s')"
  by (auto simp: lirc_init_def andThen_Running c_exit_Halted connected_def is_connect_ok_def
      split: option.splits)

lemma final_andThen_cases:
  "(\<And>c s. r = Halted c s \<Longrightarrow> Q s) \<Longrightarrow> (\<And>a s. r = Running a s \<Longrightarrow> Q (final (f a s))) \<Longrightarrow>
   Q (final (andThen r f))"
  by (cases r) auto

lemma steady_valid_pin: "steady (\<lambda>s. gpio_pin s \<in> set valid_pins)"
  by (simp add: steady_def)

lemma steady_handler_valid_pin: "steady (\<lambda>s. handler s \<and> gpio_pin s \<in> set valid_pins)"
  by (simp add: steady_def)

lemma steady_armed: "steady armed"
  by (simp add: steady_def armed_def connected_def)

lemma steady_exported: "steady (\<lambda>s. isExported s \<noteq> 0 \<and> 0 \<le> gpio_pin s)"
  by (simp add: steady_def)

text \<open>
  Every state the main flow can be in is either untouched (nothing exported, no GPIO
  file touched) or armed (handler installed, pin valid, socket connected).
\<close>

lemma main_untouched_or_armed:
  "untouched (final (main os opts pos (init_st os k))) \<or>
   armed (final (main os opts pos (init_st os k)))"
proof -
  let ?Q = "\<lambda>s. untouched s \<or> armed s"
  let ?V = "\<lambda>s. gpio_pin s \<in> set valid_pins"
  let ?H = "\<lambda>s. handler s \<and> gpio_pin s \<in> set valid_pins"
  have u0: "untouched (init_st os k)"
    by (simp add: untouched_def init_st_def)
  have "?Q (final (main os opts pos (init_st os k)))"
    unfolding main_def
  proof (rule final_andThen_cases [where Q = ?Q])
    fix c s assume "configure os opts pos (init_st os k) = Halted c s"
    with untouched_configure [OF u0, of os opts pos] show "?Q s" by simp
  next
    fix a s1 assume r1: "configure os opts pos (init_st os k) = Running a s1"
    with untouched_configure [OF u0, of os opts pos] have u1: "untouched s1" by simp
    from configure_Running [OF r1] have v1: "?V s1" .
    show "?Q (final (andThen (daemonize os s1) (\<lambda>_ s. andThen (c_sigaction s) (\<lambda>_ s.
             andThen (lirc_init os s) (\<lambda>_ s. andThen (gpio_init os s) (\<lambda>_ s.
               main_loop os (reads os) s))))))"
    proof (rule final_andThen_cases [where Q = ?Q])
      fix c s assume "daemonize os s1 = Halted c s"
      with untouched_daemonize [OF u1, of os] show "?Q s" by simp
    next
      fix a s2 assume r2: "daemonize os s1 = Running a s2"
      with untouched_daemonize [OF u1, of os] have u2: "untouched s2" by simp
      from steady_daemonize [where P = ?V, OF steady_valid_pin v1, of os] r2
      have v2: "?V s2" by simp
      show "?Q (final (andThen (c_sigaction s2) (\<lambda>_ s.
             andThen (lirc_init os s) (\<lambda>_ s. andThen (gpio_init os s) (\<lambda>_ s.
               main_loop os (reads os) s)))))"
      proof (rule final_andThen_cases [where Q = ?Q])
        fix c s assume "c_sigaction s2 = Halted c s"
        with untouched_c_sigaction [OF u2] show "?Q s" by simp
      next
        fix a s3 assume r3: "c_sigaction s2 = Running a s3"
        with untouched_c_sigaction [OF u2] have u3: "untouched s3" by simp
        from steady_c_sigaction [where P = ?V, OF steady_valid_pin _ v2] r3
        have "?V s3" by simp
        with c_sigaction_Running [OF r3] have h3: "?H s3" by simp
        show "?Q (final (andThen (lirc_init os s3) (\<lambda>_ s. andThen (gpio_init os s) (\<lambda>_ s.
               main_loop os (reads os) s))))"
        proof (rule final_andThen_cases [where Q = ?Q])
          fix c s assume "lirc_init os s3 = Halted c s"
          with untouched_lirc_init [OF u3, of os] show "?Q s" by simp
        next
          fix a s4 assume r4: "lirc_init os s3 = Running a s4"
          from steady_lirc_init [where P = ?H, OF steady_handler_valid_pin h3, of os] r4
          have "?H s4" by simp
          with lirc_init_Running [OF r4] have a4: "armed s4"
            by (simp add: armed_def)
          have "armed (final (andThen (gpio_init os s4) (\<lambda>_ s. main_loop os (reads os) s)))"
            by (intro inv_andThen [where P = armed] steady_gpio_init [where P = armed]
                steady_main_loop [where P = armed] steady_armed a4)
               (simp_all add: armed_def)
          then show "?Q (final (andThen (gpio_init os s4) (\<lambda>_ s. main_loop os (reads os) s)))"
            by simp
        qed
      qed
    qed
  qed
  then show ?thesis .
qed

section \<open>The connection comes first\<close>

lemmas call_defs = point_def emit_def c_report_def c_exit_def c_fopen_def c_fprintf_def c_read_def
  unexportGPIO_def release_def cleanup_def onExit_def exportGPIO_def setAsOutput_def
  setValue_def flash_def store_gpio_pin_def store_isExported_def strcpy_sun_path_def
  c_sigaction_def

lemmas main_defs = run_def deliver_sigint_def main_def configure_def parse_positional_def
  check_pin_def daemonize_def lirc_init_def gpio_init_def init_st_def valid_pins_def
  DEFAULT_PIN_def DEFAULT_SOCKET_def sun_path_size_def EXIT_FAILURE_def EXIT_SUCCESS_def

lemma getopt_loop_Running:
  "getopt_loop os opts s = Running u s' \<Longrightarrow>
   sigint_in s' = sigint_in s \<and> trace s' = trace s \<and> isExported s' = isExported s \<and>
   handler s' = handler s"
  by (induction opts arbitrary: s)
     (auto simp: andThen_Running c_exit_Halted split: if_splits)

lemma parse_positional_Running:
  "parse_positional os pos s = Running u s' \<Longrightarrow> sigint_in s = None \<Longrightarrow>
   sigint_in s' = None \<and> trace s' = trace s \<and> isExported s' = isExported s \<and>
   handler s' = handler s"
  by (auto simp: parse_positional_def assign_pin_def store_gpio_pin_def strcpy_sun_path_def
      no_sigint andThen_Running c_exit_Halted split: if_splits option.splits)

lemma check_pin_Running_same: "check_pin os s = Running u s' \<Longrightarrow> s' = s"
  by (auto simp: check_pin_def andThen_Running c_exit_Halted split: if_splits)

lemma configure_Running_quiet:
  "configure os opts pos s = Running u s' \<Longrightarrow> sigint_in s = None \<Longrightarrow>
   sigint_in s' = None \<and> trace s' = trace s \<and> isExported s' = isExported s \<and>
   handler s' = handler s"
  by (auto simp: configure_def andThen_Running
      dest!: getopt_loop_Running parse_positional_Running check_pin_Running_same)

text \<open>
  Claim C1, as amended. The connection to the event source is opened before the pin is
  acquired: in every state the main flow can reach, if the pin is marked exported or
  any GPIO file has been touched, then the socket has already been connected. When
  connecting fails, the failure is reported and the process exits at once with the
  value errno has after the report, which is the OS error code of \<^verbatim>\<open>connect\<close> whenever
  the report has left errno as it was; \<^verbatim>\<open>cleanup\<close> is not called, nothing has been
  exported and no GPIO file has been touched.
\<close>

theorem connection_precedes_gpio:
  "(isExported (final (main os opts pos (init_st os k))) \<noteq> 0 \<or>
    list_ex is_gpio (trace (final (main os opts pos (init_st os k)))) \<longrightarrow>
      connected (trace (final (main os opts pos (init_st os k))))) \<and>
   (configure os opts pos (init_st os None) = Running () s1 \<and>
    (isDaemon s1 = 0 \<or> fork_res os = 0) \<and>
    socket_res os = None \<and> connect_res os (sun_path s1) = Some e \<longrightarrow>
      (\<exists>s'. run os None opts pos =
              Halted (Exit (report_errno os (connect_failed_calls s1) e)) s' \<and>
            untouched s' \<and>
            trace s' = connect_failed_calls s1 @ [Stderr ''Unable to open LIRC socket''])) \<and>
   (configure os opts pos (init_st os None) = Running () s1 \<and>
    (isDaemon s1 = 0 \<or> fork_res os = 0) \<and>
    socket_res os = None \<and> connect_res os (sun_path s1) = Some e \<and>
    report_errno os (connect_failed_calls s1) e = e \<longrightarrow>
      (\<exists>s'. run os None opts pos = Halted (Exit e) s' \<and> untouched s' \<and>
            trace s' = connect_failed_calls s1 @ [Stderr ''Unable to open LIRC socket'']))"
proof -
  have 2: "\<exists>s'. run os None opts pos =
              Halted (Exit (report_errno os (connect_failed_calls s1) e)) s' \<and>
            untouched s' \<and>
            trace s' = connect_failed_calls s1 @ [Stderr ''Unable to open LIRC socket'']"
    if h: "configure os opts pos (init_st os None) = Running () s1 \<and>
      (isDaemon s1 = 0 \<or> fork_res os = 0) \<and>
      socket_res os = None \<and> connect_res os (sun_path s1) = Some e"
  proof -
    from h have c: "configure os opts pos (init_st os None) = Running () s1" by simp
    from configure_Running_quiet [OF c]
    have q: "sigint_in s1 = None" "trace s1 = []" "isExported s1 = 0"
      by (simp_all add: init_st_def)
    show ?thesis
      using h q
      by (auto simp: run_def main_def daemonize_def c_sigaction_def lirc_init_def no_sigint
          untouched_def is_gpio_def connect_failed_calls_def)
  qed
  show ?thesis
  proof (intro conjI impI)
    assume "isExported (final (main os opts pos (init_st os k))) \<noteq> 0 \<or>
      list_ex is_gpio (trace (final (main os opts pos (init_st os k))))"
    then have "\<not> untouched (final (main os opts pos (init_st os k)))"
      by (auto simp: untouched_def)
    with main_untouched_or_armed [of os opts pos k]
    show "connected (trace (final (main os opts pos (init_st os k))))"
      by (auto simp: armed_def)
  next
    assume "configure os opts pos (init_st os None) = Running () s1 \<and>
      (isDaemon s1 = 0 \<or> fork_res os = 0) \<and>
      socket_res os = None \<and> connect_res os (sun_path s1) = Some e"
    then show "\<exists>s'. run os None opts pos =
              Halted (Exit (report_errno os (connect_failed_calls s1) e)) s' \<and>
            untouched s' \<and>
            trace s' = connect_failed_calls s1 @ [Stderr ''Unable to open LIRC socket'']"
      by (rule 2)
  next
    assume h: "configure os opts pos (init_st os None) = Running () s1 \<and>
      (isDaemon s1 = 0 \<or> fork_res os = 0) \<and>
      socket_res os = None \<and> connect_res os (sun_path s1) = Some e \<and>
      report_errno os (connect_failed_calls s1) e = e"
    with 2 show "\<exists>s'. run os None opts pos = Halted (Exit e) s' \<and> untouched s' \<and>
            trace s' = connect_failed_calls s1 @ [Stderr ''Unable to open LIRC socket'']"
      by simp
  qed
qed

theorem connection_precedes_gpio_witness:
  "connected (trace (final (main ok_os [] [] (init_st ok_os (Some 9))))) \<and>
   (\<exists>s'. run refusing_os None [] [] = Halted (Exit 111) s' \<and> untouched s' \<and>
         trace s' = [Sigaction, Socket True, Connect DEFAULT_SOCKET False,
                     Stderr ''Unable to open LIRC socket''])"
proof -
  let ?s1 = "(init_st refusing_os None)\<lparr>gpio_pin := 4, sun_path := DEFAULT_SOCKET\<rparr>"
  have a: "isExported (final (main ok_os [] [] (init_st ok_os (Some 9)))) \<noteq> 0"
    by (simp add: main_defs call_defs ok_os_def)
  have b: "configure refusing_os [] [] (init_st refusing_os None) = Running () ?s1 \<and>
    (isDaemon ?s1 = 0 \<or> fork_res refusing_os = 0) \<and>
    socket_res refusing_os = None \<and> connect_res refusing_os (sun_path ?s1) = Some 111"
    by (simp add: main_defs call_defs ok_os_def refusing_os_def)
  have c: "connect_failed_calls ?s1 = [Sigaction, Socket True, Connect DEFAULT_SOCKET False]"
    "report_errno refusing_os (connect_failed_calls ?s1) 111 = 111"
    by (simp_all add: init_st_def connect_failed_calls_def refusing_os_def ok_os_def)
  from connection_precedes_gpio [of ok_os "[]" "[]" "Some 9"] a
       connection_precedes_gpio [of refusing_os "[]" "[]" _ ?s1 111] b c
  show ?thesis by simp
qed

text \<open>
  Claim C1 as stated fails. With nobody listening on the socket the process exits with
  the error code 111 after the report alone: nothing was exported before and no
  cleanup takes place. And with everything working, the state reached after three
  steps has the socket connected while nothing has been exported yet.
\<close>

theorem connect_failure_counterexample:
  "run refusing_os None [] [] = Halted (Exit 111) (final (run refusing_os None [] [])) \<and>
   trace (final (run refusing_os None [] [])) =
     [Sigaction, Socket True, Connect DEFAULT_SOCKET False,
      Stderr ''Unable to open LIRC socket''] \<and>
   isExported (final (run refusing_os None [] [])) = 0 \<and>
   trace (final (main ok_os [] [] (init_st ok_os (Some 4)))) =
     [Sigaction, Socket True, Connect DEFAULT_SOCKET True] \<and>
   isExported (final (main ok_os [] [] (init_st ok_os (Some 4)))) = 0"
  by (simp add: main_defs call_defs ok_os_def refusing_os_def)

section \<open>SIGINT\<close>

lemma valid_pins_nonneg: "p \<in> set valid_pins \<Longrightarrow> 0 \<le> p"
  by (auto simp: valid_pins_def)

lemma release_calls_append [simp]: "release_calls (t @ u) = release_calls t + release_calls u"
  by (simp add: release_calls_def)

lemma cleanup_one_release_call:
  assumes "sigint_in s = None" and "isExported s \<noteq> 0" and "0 \<le> gpio_pin s"
  shows "\<exists>c s'. (cleanup os n s :: unit res) = Halted c s' \<and>
           release_calls (trace s') = release_calls (trace s) + 1"
  using assms
  by (auto simp: cleanup_def release_def unexportGPIO_def no_sigint Let_def
      release_calls_def is_release_call_def split: option.splits)

text \<open>
  What the handler does when SIGINT is delivered between two steps of the main flow, in
  the state \<open>s\<close>: it consults \<^verbatim>\<open>isExported\<close> and nothing else. With the flag still 0
  no release call is made; with the flag set exactly one more release call is made,
  whatever the main flow has already done.
\<close>

lemma sigint_release_follows_flag:
  assumes "main os opts pos (init_st os (Some k)) = Halted SigintPending s"
  shows "(isExported s = 0 \<longrightarrow>
            run os (Some k) opts pos =
              (if handler s then Halted (Exit 1) (s\<lparr>sigint_in := None\<rparr>)
               else Halted KilledBySigint s)) \<and>
         (isExported s \<noteq> 0 \<longrightarrow>
            (\<exists>c s'. run os (Some k) opts pos = Halted c s' \<and>
                    release_calls (trace s') = release_calls (trace s) + 1)) \<and>
         (isExported s \<noteq> 0 \<and> fopen_res os (trace s) UnexportFile = None \<and>
          0 \<le> fprintf_res os (trace s @ [Fopen UnexportFile True]) UnexportFile
                 (Num (gpio_pin s)) \<longrightarrow>
            (\<exists>s'. run os (Some k) opts pos = Halted (Exit 1) s' \<and>
                  trace s' = trace s @ unexport_events (gpio_pin s) (errno s')))"
proof -
  let ?s0 = "s\<lparr>sigint_in := None\<rparr>"
  have r: "run os (Some k) opts pos = deliver_sigint os s"
    using assms by (simp add: run_def)
  have n: "sigint_in ?s0 = None" by simp
  from main_untouched_or_armed [of os opts pos "Some k"] assms
  have ua: "untouched s \<or> armed s" by simp
  show ?thesis
  proof (intro conjI impI)
    assume "isExported s = 0"
    then show "run os (Some k) opts pos =
              (if handler s then Halted (Exit 1) ?s0 else Halted KilledBySigint s)"
      by (simp add: r deliver_sigint_def onExit_def cleanup_not_exported)
  next
    assume e: "isExported s \<noteq> 0"
    with ua have a: "handler s" "0 \<le> gpio_pin s"
      by (auto simp: untouched_def armed_def valid_pins_nonneg)
    from cleanup_one_release_call [OF n, of os 1] e a
    show "\<exists>c s'. run os (Some k) opts pos = Halted c s' \<and>
                    release_calls (trace s') = release_calls (trace s) + 1"
      by (simp add: r deliver_sigint_def onExit_def)
  next
    assume h: "isExported s \<noteq> 0 \<and> fopen_res os (trace s) UnexportFile = None \<and>
          0 \<le> fprintf_res os (trace s @ [Fopen UnexportFile True]) UnexportFile
                 (Num (gpio_pin s))"
    with ua have a: "handler s" "0 \<le> gpio_pin s"
      by (auto simp: untouched_def armed_def valid_pins_nonneg)
    define x where "x = fprintf_res os (trace s @ [Fopen UnexportFile True]) UnexportFile
                 (Num (gpio_pin s))"
    have "(cleanup os 1 ?s0 :: unit res) =
            Halted (Exit 1) (?s0\<lparr>errno := x, trace := trace ?s0 @ unexport_events (gpio_pin ?s0) x\<rparr>)"
      using h a by (intro cleanup_exported_ok [OF n]) (simp_all add: x_def)
    then show "\<exists>s'. run os (Some k) opts pos = Halted (Exit 1) s' \<and>
                  trace s' = trace s @ unexport_events (gpio_pin s) (errno s')"
      using a by (simp add: r deliver_sigint_def onExit_def)
  qed
qed

lemma sigint_release_follows_flag_example:
  "run ok_os (Some 4) [] [] =
     Halted (Exit 1) ((final (main ok_os [] [] (init_st ok_os (Some 4))))\<lparr>sigint_in := None\<rparr>) \<and>
   (\<exists>s'. run ok_os (Some 9) [] [] = Halted (Exit 1) s' \<and>
         release_calls (trace s') = 1 \<and>
         trace s' = trace (final (main ok_os [] [] (init_st ok_os (Some 9)))) @
                    unexport_events 4 (errno s'))"
proof -
  let ?a = "final (main ok_os [] [] (init_st ok_os (Some 4)))"
  let ?b = "final (main ok_os [] [] (init_st ok_os (Some 9)))"
  have a: "main ok_os [] [] (init_st ok_os (Some 4)) = Halted SigintPending ?a"
    "isExported ?a = 0" "handler ?a"
    by (simp_all add: main_defs call_defs ok_os_def)
  have b: "main ok_os [] [] (init_st ok_os (Some 9)) = Halted SigintPending ?b"
    "isExported ?b \<noteq> 0" "gpio_pin ?b = 4" "release_calls (trace ?b) = 0"
    "fopen_res ok_os (trace ?b) UnexportFile = None"
    "0 \<le> fprintf_res ok_os (trace ?b @ [Fopen UnexportFile True]) UnexportFile (Num (gpio_pin ?b))"
    by (simp_all add: main_defs call_defs ok_os_def release_calls_def is_release_call_def)
  from sigint_release_follows_flag [OF a(1)] a(2,3)
  have 1: "run ok_os (Some 4) [] [] = Halted (Exit 1) (?a\<lparr>sigint_in := None\<rparr>)"
    by simp
  from sigint_release_follows_flag [OF b(1)] b(2-)
  have 2: "\<exists>s'. run ok_os (Some 9) [] [] = Halted (Exit 1) s' \<and>
         trace s' = trace ?b @ unexport_events 4 (errno s')"
    by simp
  then obtain s' where s': "run ok_os (Some 9) [] [] = Halted (Exit 1) s'"
    "trace s' = trace ?b @ unexport_events 4 (errno s')" by blast
  then have "release_calls (trace s') = 1"
    using b(4) by (simp add: unexport_events_def release_calls_def is_release_call_def)
  with 1 s' show ?thesis by blast
qed

text \<open>
  Claim C9 does not hold of the code. The handler is installed to clean up on SIGINT,
  but it relies on \<^verbatim>\<open>isExported\<close>, which is stored only after \<^verbatim>\<open>exportGPIO\<close> has
  returned. With SIGINT delivered after seven steps of a run in which every call
  succeeds, the pin has been exported (the export file was opened, written and closed)
  and the flag is still 0: the process exits with status 1 and makes no release call,
  so the pin stays exported.
\<close>

theorem sigint_after_export_leaks_pin:
  "run ok_os (Some 7) [] [] = Halted (Exit 1) (final (run ok_os (Some 7) [] [])) \<and>
   trace (final (run ok_os (Some 7) [] [])) =
     [Sigaction, Socket True, Connect DEFAULT_SOCKET True,
      Fopen ExportFile True, Fprintf ExportFile (Num 4) 2, Fclose ExportFile] \<and>
   isExported (final (run ok_os (Some 7) [] [])) = 0 \<and>
   release_calls (trace (final (run ok_os (Some 7) [] []))) = 0"
  by (simp add: main_defs call_defs ok_os_def release_calls_def is_release_call_def)

text \<open>
  In the other direction, a SIGINT that arrives while \<^verbatim>\<open>cleanup\<close> is already under way
  in the main flow finds the flag still set: with the socket closed by the peer and
  SIGINT delivered after fifteen steps, the pin is released twice.
\<close>

lemma sigint_during_cleanup_releases_twice:
  "run eof_os (Some 15) [] [] = Halted (Exit 1) (final (run eof_os (Some 15) [] [])) \<and>
   release_calls (trace (final (run eof_os (Some 15) [] []))) = 2"
  by (simp add: main_defs call_defs ok_os_def eof_os_def release_calls_def is_release_call_def
      c_strstr_def)

section \<open>The event filter\<close>

text \<open>
  Claim C3 does not hold of the code: \<^verbatim>\<open>strstr\<close> scans \<^verbatim>\<open>buf\<close> up to the first NUL,
  not up to the number of bytes just read. The press line holds no marker, and when it
  is read into a buffer of NUL bytes the LED is pulsed. When the same line is read into
  a buffer that holds old stack bytes, or after a longer release line, the bytes
  behind it contain \<^verbatim>\<open>_UP \<close> and no pulse is made.
\<close>

theorem stale_bytes_decide_classification:
  "\<not> contains press_line ''_UP '' \<and>
   trace (final (run press_os None [] [])) =
     startup_events @ [Read (ReadData press_line)] @ pulse_events 4 2 2 @ [Lseek] \<and>
   trace (final (run dirty_stack_os None [] [])) =
     startup_events @ [Read (ReadData press_line), Lseek] \<and>
   trace (final (run release_press_os None [] [])) =
     startup_events @ [Read (ReadData release_line), Lseek, Read (ReadData press_line), Lseek]"
  by (simp add: main_defs call_defs ok_os_def press_os_def dirty_stack_os_def
      release_press_os_def c_strstr_def c_string_def NUL_def press_line_def release_line_def
      startup_events_def pulse_events_def)

text \<open>
  Claim C8 does not hold of the code, by the same defect. In the loop, on an exported
  pin and a buffer of NUL bytes, a release line followed by a press line: the press
  line does not contain the marker, yet it is classified as not actionable and no
  pulse is made, because the tail of the release line is still behind it in \<^verbatim>\<open>buf\<close>.
\<close>

theorem press_after_release_not_pulsed:
  "\<not> contains press_line ''_UP '' \<and>
   c_strstr (press_line @ drop (length press_line) (release_line @ replicate 83 NUL)) ''_UP ''
     = Some True \<and>
   trace (final (main_loop ok_os [ReadData release_line, ReadData press_line] exported4)) =
     [Read (ReadData release_line), Lseek, Read (ReadData press_line), Lseek]"
  by (simp add: call_defs exported4_def init_st_def ok_os_def c_strstr_def c_string_def NUL_def
      press_line_def release_line_def)

section \<open>Properties of the trace that calls keep\<close>


lemma kept_weaken: "kept_under E Q \<Longrightarrow> (\<And>e. E' e \<Longrightarrow> E e) \<Longrightarrow> kept_under E' Q"
  by (simp add: kept_under_def)































section \<open>A pulse that is cut short\<close>

lemma value_writes_append [simp]: "value_writes (t @ u) = value_writes t @ value_writes u"
  by (simp add: value_writes_def)

lemma value_writes_Nil [simp]: "value_writes [] = []"
  by (simp add: value_writes_def)

lemma value_writes_single [simp]: "value_writes [e] = value_written e"
  by (simp add: value_writes_def)





lemma point_Halted: "point s = Halted c s' \<Longrightarrow> s' = s"
  by (auto simp: point_def split: option.splits nat.splits)










section \<open>A read of no bytes, in any run\<close>





















end
